theory Spec2Isabelle
  imports Main "HOL-Library.Sublist"
begin

section \<open>JavaScript values and strings\<close>

text \<open>
  The values that travel from the backend into component state are parsed JSON bodies.
  \<open>JUndefined\<close> is the result of reading a missing property. A number is kept as an
  integer: the only operation the program applies to a number is the truthiness test.
  An object is an association list of its own properties.
\<close>

datatype jsval =
    JUndefined
  | JNull
  | JBool bool
  | JNum int
  | JStr string
  | JArr "jsval list"
  | JObj "(string \<times> jsval) list"

text \<open>The test \<open>if (v)\<close>, \<open>v ? a : b\<close>, \<open>!!v\<close>.\<close>

fun truthy :: "jsval \<Rightarrow> bool" where
  "truthy JUndefined = False"
| "truthy JNull = False"
| "truthy (JBool b) = b"
| "truthy (JNum n) = (n \<noteq> 0)"
| "truthy (JStr s) = (s \<noteq> [])"
| "truthy (JArr vs) = True"
| "truthy (JObj kvs) = True"

text \<open>
  \<open>v.k\<close> for the property names \<open>user\<close> and \<open>role\<close>, which no prototype of a parsed JSON
  value defines: reading from \<open>null\<close> or \<open>undefined\<close> throws a TypeError (\<open>None\<close>), an
  object yields its own property, every other value yields \<open>undefined\<close>.
\<close>

fun member_js :: "jsval \<Rightarrow> string \<Rightarrow> jsval option" where
  "member_js JUndefined k = None"
| "member_js JNull k = None"
| "member_js (JObj kvs) k = Some (case map_of kvs k of None \<Rightarrow> JUndefined | Some v \<Rightarrow> v)"
| "member_js v k = Some JUndefined"

text \<open>\<open>v?.k\<close>: optional chaining yields \<open>undefined\<close> where \<open>v.k\<close> would throw.\<close>

definition opt_member :: "jsval \<Rightarrow> string \<Rightarrow> jsval" where
  "opt_member v k = (case member_js v k of None \<Rightarrow> JUndefined | Some x \<Rightarrow> x)"

text \<open>\<open>s.includes(sub)\<close>: some position of \<open>s\<close> starts with \<open>sub\<close>.\<close>

fun includes_js :: "string \<Rightarrow> string \<Rightarrow> bool" where
  "includes_js [] sub = (sub = [])"
| "includes_js (c # cs) sub = (prefix sub (c # cs) \<or> includes_js cs sub)"

text \<open>
  \<open>s.split(sep)\<close> for a string separator: the scan goes left to right, \<open>cur\<close> is the piece
  read so far; at a position that starts with the separator the piece is closed and the
  scan resumes behind the separator. An empty separator splits into single characters.
\<close>

function split_from :: "string \<Rightarrow> string \<Rightarrow> string \<Rightarrow> string list" where
  "split_from sep cur [] = [cur]"
| "split_from sep cur (c # cs) =
     (if sep \<noteq> [] \<and> prefix sep (c # cs)
      then cur # split_from sep [] (drop (length sep) (c # cs))
      else split_from sep (cur @ [c]) cs)"
  by pat_completeness auto
termination
  by (relation "measure (\<lambda>(sep, cur, s). length s)") auto

definition split_js :: "string \<Rightarrow> string \<Rightarrow> string list" where
  "split_js s sep = (if sep = [] then map (\<lambda>c. [c]) s else split_from sep [] s)"

text \<open>\<open>xs[i]\<close> on an array: \<open>undefined\<close> (\<open>None\<close>) out of range.\<close>

fun index_js :: "'a list \<Rightarrow> nat \<Rightarrow> 'a option" where
  "index_js [] i = None"
| "index_js (x # xs) 0 = Some x"
| "index_js (x # xs) (Suc i) = index_js xs i"

section \<open>Requests, the network and the browser\<close>

datatype http_method = GET | POST | PUT

text \<open>
  The arguments of a \<open>fetch\<close> call. \<open>req_credentials\<close> is the \<open>credentials\<close> option when
  the call gives one.
\<close>

record request =
  req_method :: http_method
  req_url :: string
  req_headers :: "(string \<times> string) list"
  req_credentials :: "string option"
  req_body :: "string option"

text \<open>
  What awaiting a \<open>fetch\<close> yields: the promise rejects (the call throws), or it resolves
  to a response with its \<open>ok\<close> flag and its body, \<open>None\<close> when \<open>response.json()\<close> rejects.
\<close>

datatype fetch_result = Rejected | Response bool "jsval option"

text \<open>
  The backend and the network are the environment: the answer to a request may depend
  on how many requests were issued before it.
\<close>

type_synonym network = "nat \<Rightarrow> request \<Rightarrow> fetch_result"

datatype history_op = FragmentNavigation string | ReplaceState string | PushState string

text \<open>
  The part of the browser the program reads and writes: \<open>window.location\<close>, the session
  history, the log of issued requests and the \<open>console.error\<close> log.
\<close>

record world =
  location_origin :: string
  location_pathname :: string
  location_hash :: string
  location_href_assigned :: "string list"
  history :: "history_op list"
  requests :: "request list"
  console_errors :: "string list"

definition fetch :: "network \<Rightarrow> request \<Rightarrow> world \<Rightarrow> fetch_result \<times> world" where
  "fetch net req w = (net (length (requests w)) req, w\<lparr>requests := requests w @ [req]\<rparr>)"

definition console_error :: "string \<Rightarrow> world \<Rightarrow> world" where
  "console_error msg w = w\<lparr>console_errors := console_errors w @ [msg]\<rparr>"

text \<open>\<open>window.location.hash = ''\<close>: the fragment is emptied by a fragment navigation.\<close>

definition assign_hash_empty :: "world \<Rightarrow> world" where
  "assign_hash_empty w = w\<lparr>location_hash := [], history := history w @ [FragmentNavigation []]\<rparr>"

text \<open>\<open>window.history.replaceState({}, title, path)\<close> with a path that has no fragment.\<close>

definition replaceState :: "string \<Rightarrow> world \<Rightarrow> world" where
  "replaceState path w =
     w\<lparr>location_pathname := path, location_hash := [], history := history w @ [ReplaceState path]\<rparr>"

definition pushState :: "string \<Rightarrow> world \<Rightarrow> world" where
  "pushState path w =
     w\<lparr>location_pathname := path, location_hash := [], history := history w @ [PushState path]\<rparr>"

text \<open>\<open>window.location.href = url\<close>: the browser is told to navigate to \<open>url\<close>.\<close>

definition assign_href :: "string \<Rightarrow> world \<Rightarrow> world" where
  "assign_href u w = w\<lparr>location_href_assigned := location_href_assigned w @ [u]\<rparr>"

section \<open>AuthProvider\<close>

record auth_state =
  user :: jsval
  loading :: bool
  processingAuth :: bool

text \<open>The \<open>useState\<close> initial values of \<open>AuthProvider\<close>.\<close>

definition auth_initial :: auth_state where
  "auth_initial = \<lparr>user = JNull, loading = True, processingAuth = False\<rparr>"

definition isAuthenticated :: "auth_state \<Rightarrow> bool" where
  "isAuthenticated a = truthy (user a)"

datatype js_error = TypeError

text \<open>
  \<open>urlFragment.split('session_id=')[1].split('&')[0]\<close>. Calling \<open>split\<close> on \<open>undefined\<close>
  throws; an \<open>undefined\<close> token would be sent as the text \<open>undefined\<close>.
\<close>

definition sessionId_of :: "string \<Rightarrow> js_error + string" where
  "sessionId_of urlFragment =
     (case index_js (split_js urlFragment ''session_id='') 1 of
        None \<Rightarrow> Inl TypeError
      | Some p \<Rightarrow>
          (case index_js (split_js p ''&'') 0 of
             None \<Rightarrow> Inr ''undefined''
           | Some t \<Rightarrow> Inr t))"

definition session_request :: "string \<Rightarrow> string \<Rightarrow> request" where
  "session_request BACKEND_URL sessionId =
     \<lparr>req_method = POST,
      req_url = BACKEND_URL @ ''/api/auth/session'',
      req_headers = [(''X-Session-ID'', sessionId), (''Content-Type'', ''application/json'')],
      req_credentials = Some ''include'',
      req_body = None\<rparr>"

definition me_request :: "string \<Rightarrow> request" where
  "me_request BACKEND_URL =
     \<lparr>req_method = GET,
      req_url = BACKEND_URL @ ''/api/auth/me'',
      req_headers = [],
      req_credentials = Some ''include'',
      req_body = None\<rparr>"

text \<open>
  The body of the first \<open>try\<close> of \<open>processAuth\<close>. \<open>Inl\<close> is a throw, with the state
  reached when it happened; \<open>Inr\<close> is normal completion.
\<close>

definition session_try ::
  "network \<Rightarrow> string \<Rightarrow> string \<Rightarrow> auth_state \<times> world \<Rightarrow> auth_state \<times> world + auth_state \<times> world"
where
  "session_try net BACKEND_URL sessionId s =
     (case s of (a, w) \<Rightarrow>
        (case fetch net (session_request BACKEND_URL sessionId) w of
           (Rejected, w1) \<Rightarrow> Inl (a, w1)
         | (Response ok body, w1) \<Rightarrow>
             if ok then
               (case body of
                  None \<Rightarrow> Inl (a, w1)
                | Some data \<Rightarrow>
                    (case member_js data ''user'' of
                       None \<Rightarrow> Inl (a, w1)
                     | Some u \<Rightarrow>
                         Inr (a\<lparr>user := u\<rparr>,
                              replaceState (location_pathname w1) (assign_hash_empty w1))))
             else Inr (a, w1)))"

text \<open>The body of the second \<open>try\<close> of \<open>processAuth\<close>.\<close>

definition me_try ::
  "network \<Rightarrow> string \<Rightarrow> auth_state \<times> world \<Rightarrow> auth_state \<times> world + auth_state \<times> world"
where
  "me_try net BACKEND_URL s =
     (case s of (a, w) \<Rightarrow>
        (case fetch net (me_request BACKEND_URL) w of
           (Rejected, w1) \<Rightarrow> Inl (a, w1)
         | (Response ok body, w1) \<Rightarrow>
             if ok then
               (case body of
                  None \<Rightarrow> Inl (a, w1)
                | Some userData \<Rightarrow> Inr (a\<lparr>user := userData\<rparr>, w1))
             else Inr (a, w1)))"

text \<open>\<open>try { ... } catch (error) { console.error(msg, error) }\<close>.\<close>

definition catch_log :: "string \<Rightarrow> 's \<times> world + 's \<times> world \<Rightarrow> 's \<times> world" where
  "catch_log msg r = (case r of Inl (a, w) \<Rightarrow> (a, console_error msg w) | Inr s \<Rightarrow> s)"

text \<open>
  \<open>processAuth\<close>, run once by the mount effect of \<open>AuthProvider\<close>. \<open>Inl\<close> is an exception
  that escapes the function (its promise rejects), with the state reached.
\<close>

definition processAuth ::
  "network \<Rightarrow> string \<Rightarrow> auth_state \<times> world \<Rightarrow> js_error \<times> auth_state \<times> world + auth_state \<times> world"
where
  "processAuth net BACKEND_URL s =
     (case s of (a, w) \<Rightarrow>
        (let urlFragment = location_hash w in
         if includes_js urlFragment ''session_id='' then
           (let a1 = a\<lparr>processingAuth := True\<rparr> in
            case sessionId_of urlFragment of
              Inl e \<Rightarrow> Inl (e, a1, w)
            | Inr sessionId \<Rightarrow>
                (case catch_log ''Auth processing failed:''
                        (session_try net BACKEND_URL sessionId (a1, w)) of
                   (a2, w2) \<Rightarrow> Inr (a2\<lparr>processingAuth := False, loading := False\<rparr>, w2)))
         else
           (case catch_log ''Session check failed:'' (me_try net BACKEND_URL (a, w)) of
              (a2, w2) \<Rightarrow> Inr (a2\<lparr>loading := False\<rparr>, w2))))"

text \<open>The world a run of \<open>processAuth\<close> leaves behind, whether it returns or throws.\<close>

definition world_after :: "js_error \<times> auth_state \<times> world + auth_state \<times> world \<Rightarrow> world" where
  "world_after r = (case r of Inl (e, a, w) \<Rightarrow> w | Inr (a, w) \<Rightarrow> w)"

definition auth_after :: "js_error \<times> auth_state \<times> world + auth_state \<times> world \<Rightarrow> auth_state" where
  "auth_after r = (case r of Inl (e, a, w) \<Rightarrow> a | Inr (a, w) \<Rightarrow> a)"

text \<open>
  \<open>encodeURIComponent\<close> on strings of code units below 256: the unreserved characters
  stay, every other one becomes the percent-escaped bytes of its UTF-8 encoding.
\<close>

definition uri_unreserved :: "char \<Rightarrow> bool" where
  "uri_unreserved c =
     (c \<in> set ''ABCDEFGHIJKLMNOPQRSTUVWXYZabcdefghijklmnopqrstuvwxyz0123456789-_.!~*()''
      \<or> c = CHR 0x27)"

definition hex_digit :: "nat \<Rightarrow> char" where
  "hex_digit n = ''0123456789ABCDEF'' ! (n mod 16)"

definition percent_byte :: "nat \<Rightarrow> string" where
  "percent_byte b = [CHR ''%'', hex_digit (b div 16), hex_digit (b mod 16)]"

definition utf8_bytes :: "nat \<Rightarrow> nat list" where
  "utf8_bytes n = (if n < 128 then [n] else [192 + n div 64, 128 + n mod 64])"

definition encode_unit :: "char \<Rightarrow> string" where
  "encode_unit c =
     (if uri_unreserved c then [c] else concat (map percent_byte (utf8_bytes (of_char c))))"

definition encodeURIComponent :: "string \<Rightarrow> string" where
  "encodeURIComponent s = concat (map encode_unit s)"

definition login :: "world \<Rightarrow> world" where
  "login w =
     (let redirectUrl = location_origin w @ ''/dashboard''
      in assign_href (''https://auth.emergentagent.com/?redirect='' @ encodeURIComponent redirectUrl) w)"

definition logout_request :: "string \<Rightarrow> request" where
  "logout_request BACKEND_URL =
     \<lparr>req_method = POST,
      req_url = BACKEND_URL @ ''/api/auth/logout'',
      req_headers = [],
      req_credentials = Some ''include'',
      req_body = None\<rparr>"

text \<open>\<open>logout\<close>: \<open>setUser(null)\<close> follows the awaited \<open>fetch\<close> inside the \<open>try\<close>.\<close>

definition logout :: "network \<Rightarrow> string \<Rightarrow> auth_state \<times> world \<Rightarrow> auth_state \<times> world" where
  "logout net BACKEND_URL s =
     (case s of (a, w) \<Rightarrow>
        catch_log ''Logout failed:''
          (case fetch net (logout_request BACKEND_URL) w of
             (Rejected, w1) \<Rightarrow> Inl (a, w1)
           | (Response ok body, w1) \<Rightarrow> Inr (a\<lparr>user := JNull\<rparr>, w1)))"

section \<open>Dashboard\<close>

record dashboard_state =
  activeTab :: string
  analytics :: jsval
  bots :: jsval
  trades :: jsval
  portfolio :: jsval
  marketData :: jsval
  users :: jsval
  dash_loading :: bool

text \<open>The \<open>useState\<close> initial values of \<open>Dashboard\<close>.\<close>

definition dashboard_initial :: dashboard_state where
  "dashboard_initial =
     \<lparr>activeTab = ''overview'', analytics = JNull, bots = JArr [], trades = JArr [],
      portfolio = JNull, marketData = JObj [], users = JArr [], dash_loading = True\<rparr>"

definition get_request :: "string \<Rightarrow> string \<Rightarrow> string option \<Rightarrow> request" where
  "get_request BACKEND_URL path cred =
     \<lparr>req_method = GET, req_url = BACKEND_URL @ path, req_headers = [],
      req_credentials = cred, req_body = None\<rparr>"

definition analytics_request :: "string \<Rightarrow> request" where
  "analytics_request BACKEND_URL = get_request BACKEND_URL ''/api/analytics/overview'' (Some ''include'')"

definition bots_request :: "string \<Rightarrow> request" where
  "bots_request BACKEND_URL = get_request BACKEND_URL ''/api/bots'' (Some ''include'')"

definition trades_request :: "string \<Rightarrow> request" where
  "trades_request BACKEND_URL = get_request BACKEND_URL ''/api/trades'' (Some ''include'')"

definition portfolio_request :: "string \<Rightarrow> request" where
  "portfolio_request BACKEND_URL = get_request BACKEND_URL ''/api/portfolio'' (Some ''include'')"

definition market_request :: "string \<Rightarrow> request" where
  "market_request BACKEND_URL = get_request BACKEND_URL ''/api/market/stocks'' None"

definition users_request :: "string \<Rightarrow> request" where
  "users_request BACKEND_URL = get_request BACKEND_URL ''/api/admin/users'' (Some ''include'')"

text \<open>
  One block \<open>const res = await fetch(...); if (res.ok) { setX(await res.json()); }\<close>
  inside a \<open>try\<close>: \<open>Inl\<close> when the \<open>fetch\<close> or the \<open>json()\<close> throws.
\<close>

definition fetch_into ::
  "network \<Rightarrow> request \<Rightarrow> (jsval \<Rightarrow> dashboard_state \<Rightarrow> dashboard_state) \<Rightarrow>
   dashboard_state \<times> world \<Rightarrow> dashboard_state \<times> world + dashboard_state \<times> world"
where
  "fetch_into net req setX s =
     (case s of (d, w) \<Rightarrow>
        (case fetch net req w of
           (Rejected, w1) \<Rightarrow> Inl (d, w1)
         | (Response ok body, w1) \<Rightarrow>
             if ok then (case body of None \<Rightarrow> Inl (d, w1) | Some v \<Rightarrow> Inr (setX v d, w1))
             else Inr (d, w1)))"

text \<open>Sequencing of statements inside a \<open>try\<close>: a throw skips what follows.\<close>

definition then_do :: "'s + 's \<Rightarrow> ('s \<Rightarrow> 's + 's) \<Rightarrow> 's + 's" where
  "then_do r f = (case r of Inl s \<Rightarrow> Inl s | Inr s \<Rightarrow> f s)"

definition isAdmin :: "jsval \<Rightarrow> bool" where
  "isAdmin u = (opt_member u ''role'' = JStr ''admin'')"

text \<open>The \<open>try\<close> block of \<open>fetchData\<close>; \<open>u\<close> is the \<open>user\<close> of the auth context.\<close>

definition fetchData_try ::
  "network \<Rightarrow> string \<Rightarrow> jsval \<Rightarrow> dashboard_state \<times> world \<Rightarrow>
   dashboard_state \<times> world + dashboard_state \<times> world"
where
  "fetchData_try net BACKEND_URL u s =
     (case s of (d, w) \<Rightarrow>
        then_do (then_do (then_do (then_do (then_do
          (fetch_into net (analytics_request BACKEND_URL) (\<lambda>v d. d\<lparr>analytics := v\<rparr>)
             (d\<lparr>dash_loading := True\<rparr>, w))
          (fetch_into net (bots_request BACKEND_URL) (\<lambda>v d. d\<lparr>bots := v\<rparr>)))
          (fetch_into net (trades_request BACKEND_URL) (\<lambda>v d. d\<lparr>trades := v\<rparr>)))
          (fetch_into net (portfolio_request BACKEND_URL) (\<lambda>v d. d\<lparr>portfolio := v\<rparr>)))
          (fetch_into net (market_request BACKEND_URL) (\<lambda>v d. d\<lparr>marketData := v\<rparr>)))
          (\<lambda>s. if opt_member u ''role'' = JStr ''admin''
                then fetch_into net (users_request BACKEND_URL) (\<lambda>v d. d\<lparr>users := v\<rparr>) s
                else Inr s))"

text \<open>\<open>fetchData\<close>: the \<open>try\<close>, its \<open>catch\<close>, and \<open>setLoading(false)\<close> in the \<open>finally\<close>.\<close>

definition fetchData ::
  "network \<Rightarrow> string \<Rightarrow> jsval \<Rightarrow> dashboard_state \<times> world \<Rightarrow> dashboard_state \<times> world"
where
  "fetchData net BACKEND_URL u s =
     (case catch_log ''Error fetching data:'' (fetchData_try net BACKEND_URL u s) of
        (d2, w2) \<Rightarrow> (d2\<lparr>dash_loading := False\<rparr>, w2))"

definition tabs :: "jsval \<Rightarrow> string list" where
  "tabs u =
     (if isAdmin u then [''overview'', ''users'', ''bots'', ''analytics'']
      else [''overview'', ''bots'', ''trades'', ''portfolio''])"

section \<open>App\<close>

datatype view = LoadingSpinner | Dashboard | LandingPage | AuthForm

text \<open>
  \<open>App\<close> of \<open>frontend/src/App.js\<close>: one render, which yields the element shown and may
  assign \<open>window.location.href\<close>. \<open>isOnDashboard\<close> is \<open>pathname === '/dashboard' || user\<close>,
  read through \<open>!\<close> only.
\<close>

definition App :: "auth_state \<Rightarrow> world \<Rightarrow> view \<times> world" where
  "App a w =
     (if loading a \<or> processingAuth a then (LoadingSpinner, w)
      else
        (let isOnDashboard = (location_pathname w = ''/dashboard'' \<or> truthy (user a)) in
         if truthy (user a) \<and> \<not> isOnDashboard then (LoadingSpinner, assign_href ''/dashboard'' w)
         else (if truthy (user a) then Dashboard else LandingPage, w)))"

text \<open>
  \<open>App\<close> of the second source file, which keeps a \<open>currentPage\<close> state. Its first effect
  (dependency \<open>user\<close>) yields the page it sets from the path.
\<close>

definition route_effect :: "auth_state \<Rightarrow> world \<Rightarrow> string" where
  "route_effect a w =
     (let path = location_pathname w in
      if path = ''/dashboard'' \<or> (truthy (user a) \<and> path = ''/'') then ''dashboard''
      else if path = ''/login'' \<or> path = ''/signup'' then ''auth''
      else ''home'')"

text \<open>
  Its second effect (dependencies \<open>user\<close>, \<open>currentPage\<close>): \<open>None\<close> when it sets no page.
\<close>

definition redirect_effect :: "auth_state \<Rightarrow> string \<Rightarrow> world \<Rightarrow> string option \<times> world" where
  "redirect_effect a currentPage w =
     (if truthy (user a) \<and> currentPage \<noteq> ''dashboard''
      then (Some ''dashboard'', pushState ''/dashboard'' w)
      else (None, w))"

text \<open>
  Both effects after a render in which \<open>user\<close> changed: they read the \<open>currentPage\<close> of
  that render, and the last \<open>setCurrentPage\<close> call gives the next value.
\<close>

definition effects_on_user :: "auth_state \<Rightarrow> string \<times> world \<Rightarrow> string \<times> world" where
  "effects_on_user a s =
     (case s of (currentPage, w) \<Rightarrow>
        (let p1 = route_effect a w in
         case redirect_effect a currentPage w of
           (None, w2) \<Rightarrow> (p1, w2)
         | (Some p2, w2) \<Rightarrow> (p2, w2)))"

definition renderPage :: "auth_state \<Rightarrow> string \<Rightarrow> view" where
  "renderPage a currentPage =
     (if truthy (user a) then Dashboard
      else if currentPage = ''dashboard'' then (if truthy (user a) then Dashboard else LandingPage)
      else if currentPage = ''auth'' then AuthForm
      else LandingPage)"

definition App_part_000 :: "auth_state \<Rightarrow> string \<Rightarrow> view" where
  "App_part_000 a currentPage =
     (if loading a \<or> processingAuth a then LoadingSpinner else renderPage a currentPage)"

section \<open>Vocabulary of the specification\<close>

text \<open>The requests a run issued: what it appended to the request log.\<close>

definition issued :: "world \<Rightarrow> world \<Rightarrow> request list" where
  "issued w w' = drop (length (requests w)) (requests w')"

text \<open>A request that fails (the \<open>fetch\<close> throws) or returns a non-OK response.\<close>

fun failed :: "fetch_result \<Rightarrow> bool" where
  "failed Rejected = True"
| "failed (Response ok body) = (\<not> ok)"

text \<open>
  A session exchange that returns a non-OK response or throws inside the \<open>try\<close> of
  \<open>processAuth\<close>: the \<open>fetch\<close> rejects, the response is not OK, \<open>response.json()\<close>
  rejects, or the body is \<open>null\<close>, on which reading \<open>data.user\<close> throws.
\<close>

fun exchange_fails :: "fetch_result \<Rightarrow> bool" where
  "exchange_fails Rejected = True"
| "exchange_fails (Response ok body) =
     (\<not> ok \<or> (case body of None \<Rightarrow> True | Some data \<Rightarrow> member_js data ''user'' = None))"

text \<open>
  An awaited request that throws inside \<open>fetchData\<close>: the \<open>fetch\<close> rejects, or the
  response is OK and its body is not JSON.
\<close>

fun throws :: "fetch_result \<Rightarrow> bool" where
  "throws Rejected = True"
| "throws (Response ok body) = (ok \<and> body = None)"

text \<open>The batch of read requests of the dashboard, in the order of the source.\<close>

definition batch :: "string \<Rightarrow> jsval \<Rightarrow> request list" where
  "batch BACKEND_URL u =
     [analytics_request BACKEND_URL, bots_request BACKEND_URL, trades_request BACKEND_URL,
      portfolio_request BACKEND_URL, market_request BACKEND_URL]
     @ (if isAdmin u then [users_request BACKEND_URL] else [])"

text \<open>
  The specification's words for the session token, as functions on the fragment: the
  text before the first occurrence of a separator and the text behind it.
\<close>

fun spec_before_first :: "string \<Rightarrow> string \<Rightarrow> string" where
  "spec_before_first sep [] = []"
| "spec_before_first sep (c # cs) =
     (if prefix sep (c # cs) then [] else c # spec_before_first sep cs)"

fun spec_after_first :: "string \<Rightarrow> string \<Rightarrow> string" where
  "spec_after_first sep [] = []"
| "spec_after_first sep (c # cs) =
     (if prefix sep (c # cs) then drop (length sep) (c # cs) else spec_after_first sep cs)"

text \<open>
  The token as the specification words it: from the first \<open>session_id=\<close> to the next
  \<open>&\<close> or the end of the fragment.
\<close>

definition spec_token :: "string \<Rightarrow> string" where
  "spec_token h = takeWhile (\<lambda>c. c \<noteq> CHR ''&'') (spec_after_first ''session_id='' h)"

text \<open>
  The same, stopping also at the next \<open>session_id=\<close>.
\<close>

definition spec_token_bounded :: "string \<Rightarrow> string" where
  "spec_token_bounded h =
     takeWhile (\<lambda>c. c \<noteq> CHR ''&'')
       (spec_before_first ''session_id='' (spec_after_first ''session_id='' h))"

text \<open>
  The list form of the \<open>try\<close> block of \<open>fetchData\<close>: the blocks run in order until one
  throws.
\<close>

fun run_blocks ::
  "network \<Rightarrow> (request \<times> (jsval \<Rightarrow> dashboard_state \<Rightarrow> dashboard_state)) list \<Rightarrow>
   dashboard_state \<times> world \<Rightarrow> dashboard_state \<times> world + dashboard_state \<times> world"
where
  "run_blocks net [] s = Inr s"
| "run_blocks net ((req, setX) # bs) s = then_do (fetch_into net req setX s) (run_blocks net bs)"

definition blocks ::
  "string \<Rightarrow> jsval \<Rightarrow> (request \<times> (jsval \<Rightarrow> dashboard_state \<Rightarrow> dashboard_state)) list"
where
  "blocks BACKEND_URL u =
     [(analytics_request BACKEND_URL, \<lambda>v d. d\<lparr>analytics := v\<rparr>),
      (bots_request BACKEND_URL, \<lambda>v d. d\<lparr>bots := v\<rparr>),
      (trades_request BACKEND_URL, \<lambda>v d. d\<lparr>trades := v\<rparr>),
      (portfolio_request BACKEND_URL, \<lambda>v d. d\<lparr>portfolio := v\<rparr>),
      (market_request BACKEND_URL, \<lambda>v d. d\<lparr>marketData := v\<rparr>)]
     @ (if isAdmin u then [(users_request BACKEND_URL, \<lambda>v d. d\<lparr>users := v\<rparr>)] else [])"

text \<open>
  The requests of a list that are issued when they are sent in order, the \<open>n\<close>-th
  request of the page first, until one throws.
\<close>

fun issued_until_throw :: "network \<Rightarrow> nat \<Rightarrow> request list \<Rightarrow> request list" where
  "issued_until_throw net n [] = []"
| "issued_until_throw net n (r # rs) =
     r # (if throws (net n r) then [] else issued_until_throw net (Suc n) rs)"

section \<open>Concrete pages, users and networks\<close>

text \<open>A freshly loaded page at a path with a fragment.\<close>

definition page :: "string \<Rightarrow> string \<Rightarrow> world" where
  "page path h =
     \<lparr>location_origin = ''https://zodic.example'', location_pathname = path,
      location_hash = h, location_href_assigned = [], history = [], requests = [],
      console_errors = []\<rparr>"

definition admin_user :: jsval where
  "admin_user = JObj [(''email'', JStr ''root@zodic.example''), (''role'', JStr ''admin'')]"

definition plain_user :: jsval where
  "plain_user = JObj [(''email'', JStr ''ann@zodic.example''), (''role'', JStr ''user'')]"

text \<open>Every request throws.\<close>

definition net_down :: network where
  "net_down n r = Rejected"

text \<open>Every request is answered with a non-OK response.\<close>

definition net_refusing :: network where
  "net_refusing n r = Response False None"

text \<open>Every request is answered with an OK response whose body is not JSON.\<close>

definition net_garbled :: network where
  "net_garbled n r = Response True None"

text \<open>Every request is answered with an OK response whose body is \<open>null\<close>.\<close>

definition net_null :: network where
  "net_null n r = Response True (Some JNull)"

text \<open>Only the first request throws; the others are answered with an empty list.\<close>

definition net_first_down :: network where
  "net_first_down n r = (if n = 0 then Rejected else Response True (Some (JArr [])))"

text \<open>The session endpoint and the profile endpoint answer with a signed-in user.\<close>

definition net_up :: network where
  "net_up n r =
     (if req_method r = POST then Response True (Some (JObj [(''user'', plain_user)]))
      else Response True (Some plain_user))"

section \<open>Strings: \<open>includes\<close> and \<open>split\<close>\<close>

lemma includes_js_sublist: "includes_js s sub \<longleftrightarrow> sublist sub s"
  by (induction s) (auto simp: sublist_Cons_right)

text \<open>
  The first piece of a split ends where the separator first occurs, and the split goes
  on behind that occurrence.
\<close>

lemma split_from_first:
  "sep \<noteq> [] \<Longrightarrow>
   split_from sep cur s =
     (cur @ spec_before_first sep s) #
     (if includes_js s sep then split_from sep [] (spec_after_first sep s) else [])"
  by (induction s arbitrary: cur) auto

lemma spec_before_first_single: "spec_before_first [x] s = takeWhile (\<lambda>c. c \<noteq> x) s"
  by (induction s) auto

text \<open>
  Under the guard of \<open>processAuth\<close> the index \<open>[1]\<close> is in range, so the token expression
  never throws, and its value is the text behind the first \<open>session_id=\<close> up to the next
  \<open>session_id=\<close>, cut at the first \<open>&\<close>.
\<close>

lemma sessionId_of_includes:
  assumes "includes_js h ''session_id=''"
  shows "sessionId_of h = Inr (spec_token_bounded h)"
proof -
  let ?sep = "''session_id=''"
  let ?rest = "spec_after_first ?sep h"
  have whole: "split_js h ?sep = spec_before_first ?sep h # split_from ?sep [] ?rest"
    unfolding split_js_def using assms split_from_first[of ?sep "[]" h] by simp
  have tail: "split_from ?sep [] ?rest =
      spec_before_first ?sep ?rest #
      (if includes_js ?rest ?sep then split_from ?sep [] (spec_after_first ?sep ?rest) else [])"
    using split_from_first[of ?sep "[]" ?rest] by simp
  have second: "index_js (split_js h ?sep) 1 = Some (spec_before_first ?sep ?rest)"
    unfolding whole by (subst tail) simp
  have first: "index_js (split_js p ''&'') 0 = Some (takeWhile (\<lambda>c. c \<noteq> CHR ''&'') p)" for p
    unfolding split_js_def using split_from_first[of "''&''" "[]" p]
    by (simp add: spec_before_first_single)
  show ?thesis
    unfolding sessionId_of_def spec_token_bounded_def second using first by simp
qed

section \<open>The session resolver\<close>

lemma session_try_requests:
  "requests (snd (catch_log msg (session_try net B tok (a, w)))) =
     requests w @ [session_request B tok]"
  by (cases "net (length (requests w)) (session_request B tok)")
     (auto simp: session_try_def fetch_def catch_log_def console_error_def replaceState_def
        assign_hash_empty_def split: option.splits)

lemma me_try_requests:
  "requests (snd (catch_log msg (me_try net B (a, w)))) = requests w @ [me_request B]"
  by (cases "net (length (requests w)) (me_request B)")
     (auto simp: me_try_def fetch_def catch_log_def console_error_def split: option.splits)

lemma processAuth_requests:
  "requests (world_after (processAuth net B (a, w))) =
     requests w @ [if includes_js (location_hash w) ''session_id=''
                   then session_request B (spec_token_bounded (location_hash w))
                   else me_request B]"
proof (cases "includes_js (location_hash w) ''session_id=''")
  case True
  show ?thesis
    using True
      session_try_requests[of "''Auth processing failed:''" net B
        "spec_token_bounded (location_hash w)" "a\<lparr>processingAuth := True\<rparr>" w]
    by (auto simp: processAuth_def sessionId_of_includes world_after_def split: prod.splits)
next
  case False
  show ?thesis
    using False me_try_requests[of "''Session check failed:''" net B a w]
    by (auto simp: processAuth_def world_after_def split: prod.splits)
qed

text \<open>
  C1. On a page load \<open>processAuth\<close> issues exactly one request, whatever the network
  answers: when the fragment contains \<open>session_id=\<close> it is a POST to
  \<open>/api/auth/session\<close> and no request goes to \<open>/api/auth/me\<close>; otherwise it is a GET to
  \<open>/api/auth/me\<close>.
\<close>

theorem processAuth_one_of_two:
  "(includes_js (location_hash w) ''session_id='' \<longrightarrow>
      (\<exists>tok. issued w (world_after (processAuth net B (a, w))) = [session_request B tok])
      \<and> (\<exists>r. issued w (world_after (processAuth net B (a, w))) = [r]
             \<and> req_method r = POST \<and> req_url r = B @ ''/api/auth/session'')
      \<and> (\<forall>r \<in> set (issued w (world_after (processAuth net B (a, w)))).
            req_url r \<noteq> B @ ''/api/auth/me''))
   \<and> (\<not> includes_js (location_hash w) ''session_id='' \<longrightarrow>
      issued w (world_after (processAuth net B (a, w))) = [me_request B]
      \<and> (\<exists>r. issued w (world_after (processAuth net B (a, w))) = [r]
             \<and> req_method r = GET \<and> req_url r = B @ ''/api/auth/me'')
      \<and> (\<forall>r \<in> set (issued w (world_after (processAuth net B (a, w)))).
            req_url r \<noteq> B @ ''/api/auth/session''))"
  by (simp add: issued_def processAuth_requests session_request_def me_request_def)

theorem processAuth_one_of_two_witness:
  "includes_js (location_hash (page ''/dashboard'' ''#session_id=tok1'')) ''session_id=''
   \<and> issued (page ''/dashboard'' ''#session_id=tok1'')
        (world_after (processAuth net_refusing ''B''
           (auth_initial, page ''/dashboard'' ''#session_id=tok1'')))
      = [session_request ''B'' ''tok1'']
   \<and> map (\<lambda>r. (req_method r, req_url r))
        (issued (page ''/dashboard'' ''#session_id=tok1'')
          (world_after (processAuth net_refusing ''B''
             (auth_initial, page ''/dashboard'' ''#session_id=tok1''))))
      = [(POST, ''B/api/auth/session'')]
   \<and> \<not> includes_js (location_hash (page ''/'' [])) ''session_id=''
   \<and> issued (page ''/'' [])
        (world_after (processAuth net_down ''B'' (auth_initial, page ''/'' [])))
      = [me_request ''B'']
   \<and> map (\<lambda>r. (req_method r, req_url r))
        (issued (page ''/'' [])
          (world_after (processAuth net_down ''B'' (auth_initial, page ''/'' []))))
      = [(GET, ''B/api/auth/me'')]"
proof -
  let ?p = "page ''/dashboard'' ''#session_id=tok1''"
  let ?q = "page ''/'' []"
  have inc: "includes_js (location_hash ?p) ''session_id=''"
    by (simp add: page_def)
  have exc: "\<not> includes_js (location_hash ?q) ''session_id=''"
    by (simp add: page_def)
  note handoff = processAuth_one_of_two[of ?p net_refusing "''B''" auth_initial]
  note probe = processAuth_one_of_two[of ?q net_down "''B''" auth_initial]
  from handoff inc obtain tok where t:
    "issued ?p (world_after (processAuth net_refusing ''B'' (auth_initial, ?p)))
       = [session_request ''B'' tok]"
    by blast
  have "tok = ''tok1''"
    using t
    by (simp add: issued_def processAuth_requests spec_token_bounded_def page_def
        session_request_def)
  with t have one: "issued ?p (world_after (processAuth net_refusing ''B'' (auth_initial, ?p)))
       = [session_request ''B'' ''tok1'']"
    by simp
  from handoff inc obtain r where r:
    "issued ?p (world_after (processAuth net_refusing ''B'' (auth_initial, ?p))) = [r]"
    "req_method r = POST" "req_url r = ''B'' @ ''/api/auth/session''"
    by blast
  from probe exc have two:
    "issued ?q (world_after (processAuth net_down ''B'' (auth_initial, ?q))) = [me_request ''B'']"
    by blast
  from probe exc obtain r' where r':
    "issued ?q (world_after (processAuth net_down ''B'' (auth_initial, ?q))) = [r']"
    "req_method r' = GET" "req_url r' = ''B'' @ ''/api/auth/me''"
    by blast
  show ?thesis
    using inc exc one two r r' by simp
qed

text \<open>
  The two functions of the specification's vocabulary cut a string at the first occurrence
  of the separator: no occurrence starts inside the first part, and the first part ends
  at an occurrence or at the end of the string.
\<close>

lemma spec_split_first:
  "includes_js s sep \<Longrightarrow> s = spec_before_first sep s @ sep @ spec_after_first sep s"
  by (induction s) (auto simp: prefix_def)

lemma spec_before_first_no_occurrence:
  "sep \<noteq> [] \<Longrightarrow> i < length (spec_before_first sep s) \<Longrightarrow> \<not> prefix sep (drop i s)"
proof (induction s arbitrary: i)
  case Nil
  then show ?case by simp
next
  case (Cons c cs)
  show ?case
  proof (cases "prefix sep (c # cs)")
    case True
    with Cons.prems show ?thesis by simp
  next
    case False
    show ?thesis
    proof (cases i)
      case 0
      with False show ?thesis by simp
    next
      case (Suc j)
      with Cons.prems False have "j < length (spec_before_first sep cs)" by simp
      from Cons.IH[OF Cons.prems(1) this] Suc show ?thesis by simp
    qed
  qed
qed

lemma spec_before_first_stop:
  "\<exists>rest. s = spec_before_first sep s @ rest \<and> (rest = [] \<or> prefix sep rest)"
  by (induction s) auto

lemma spec_before_first_absent:
  "\<not> includes_js s sep \<Longrightarrow> spec_before_first sep s = s"
  by (induction s) auto

text \<open>With a single \<open>session_id=\<close> in the fragment both readings of the token agree.\<close>

lemma spec_token_agree:
  "\<not> includes_js (spec_after_first ''session_id='' h) ''session_id='' \<Longrightarrow>
   spec_token_bounded h = spec_token h"
  by (simp add: spec_token_bounded_def spec_token_def spec_before_first_absent)

text \<open>
  C5, as stated, fails: for the fragment \<open>#session_id=1session_id=2\<close> the token sent is
  \<open>1\<close>, while the text from the first \<open>session_id=\<close> to the next \<open>&\<close> or the end is
  \<open>1session_id=2\<close>.
\<close>

theorem session_token_counterexample:
  "includes_js (location_hash (page ''/dashboard'' ''#session_id=1session_id=2'')) ''session_id=''
   \<and> issued (page ''/dashboard'' ''#session_id=1session_id=2'')
        (world_after (processAuth net_up ''B''
           (auth_initial, page ''/dashboard'' ''#session_id=1session_id=2'')))
      = [session_request ''B'' ''1'']
   \<and> spec_token (location_hash (page ''/dashboard'' ''#session_id=1session_id=2''))
      = ''1session_id=2''"
  by (simp add: issued_def processAuth_requests page_def spec_token_bounded_def spec_token_def)

text \<open>
  C5, amended. When the fragment contains \<open>session_id=\<close>, exactly one exchange request
  is issued, and the token in its \<open>X-Session-ID\<close> header is the text of the fragment from
  the first occurrence of \<open>session_id=\<close> to the next \<open>&\<close>, the next occurrence of
  \<open>session_id=\<close>, or the end of the fragment, whichever comes first.
\<close>

theorem session_token_sent:
  assumes "includes_js (location_hash w) ''session_id=''"
  shows "issued w (world_after (processAuth net B (a, w)))
           = [session_request B (spec_token_bounded (location_hash w))]
         \<and> map_of (req_headers (session_request B (spec_token_bounded (location_hash w))))
             ''X-Session-ID'' = Some (spec_token_bounded (location_hash w))"
  using assms by (simp add: issued_def processAuth_requests session_request_def)

theorem session_token_sent_witness:
  "includes_js (location_hash (page ''/dashboard'' ''#x=1&session_id=ab&session_id=cd'')) ''session_id=''
   \<and> issued (page ''/dashboard'' ''#x=1&session_id=ab&session_id=cd'')
        (world_after (processAuth net_up ''B''
           (auth_initial, page ''/dashboard'' ''#x=1&session_id=ab&session_id=cd'')))
      = [session_request ''B'' ''ab'']
   \<and> map_of (req_headers (session_request ''B'' ''ab'')) ''X-Session-ID'' = Some ''ab''"
proof -
  have inc: "includes_js (location_hash (page ''/dashboard'' ''#x=1&session_id=ab&session_id=cd'')) ''session_id=''"
    by (simp add: page_def)
  have tok: "spec_token_bounded (location_hash (page ''/dashboard'' ''#x=1&session_id=ab&session_id=cd'')) = ''ab''"
    by (simp add: page_def spec_token_bounded_def)
  show ?thesis
    using inc session_token_sent[OF inc, of net_up "''B''" auth_initial] unfolding tok by simp
qed

text \<open>
  An exchange that fails or throws changes neither the location, nor the history, nor
  the user; one that succeeds sets the user and clears the fragment.
\<close>

lemma session_try_failed:
  "exchange_fails (net (length (requests w)) (session_request B tok)) \<Longrightarrow>
   catch_log msg (session_try net B tok (a, w)) = (a', w') \<Longrightarrow>
   location_hash w' = location_hash w \<and> history w' = history w
   \<and> location_pathname w' = location_pathname w \<and> user a' = user a"
  by (cases "net (length (requests w)) (session_request B tok)")
     (auto simp: session_try_def fetch_def catch_log_def console_error_def
        split: option.splits if_splits)

lemma session_try_succeeded:
  "\<not> exchange_fails (net (length (requests w)) (session_request B tok)) \<Longrightarrow>
   catch_log msg (session_try net B tok (a, w)) = (a', w') \<Longrightarrow>
   location_hash w' = []
   \<and> history w' = history w @ [FragmentNavigation [], ReplaceState (location_pathname w)]"
  by (cases "net (length (requests w)) (session_request B tok)")
     (auto simp: session_try_def fetch_def catch_log_def replaceState_def assign_hash_empty_def
        split: option.splits if_splits)

text \<open>
  C10. When the session exchange returns a non-OK response or throws, be it the
  \<open>fetch\<close>, the parsing of the body or the reading of \<open>data.user\<close>, \<open>processAuth\<close> leaves
  the URL fragment, the path and the session history as they were, and the user as it
  was, which on a page load is \<open>null\<close>.
\<close>

theorem failed_exchange_keeps_fragment:
  assumes "includes_js (location_hash w) ''session_id=''"
    and "sessionId_of (location_hash w) = Inr tok"
    and "exchange_fails (net (length (requests w)) (session_request B tok))"
  shows "location_hash (world_after (processAuth net B (a, w))) = location_hash w
         \<and> history (world_after (processAuth net B (a, w))) = history w
         \<and> location_pathname (world_after (processAuth net B (a, w))) = location_pathname w
         \<and> user (auth_after (processAuth net B (a, w))) = user a"
proof -
  obtain a' w' where c: "catch_log ''Auth processing failed:''
      (session_try net B tok (a\<lparr>processingAuth := True\<rparr>, w)) = (a', w')"
    by (cases "catch_log ''Auth processing failed:''
      (session_try net B tok (a\<lparr>processingAuth := True\<rparr>, w))") blast
  from session_try_failed[OF assms(3) c]
  show ?thesis
    using assms(1,2) c by (simp add: processAuth_def world_after_def auth_after_def)
qed

theorem failed_exchange_keeps_fragment_witness:
  "includes_js (location_hash (page ''/dashboard'' ''#session_id=tok1'')) ''session_id=''
   \<and> sessionId_of (location_hash (page ''/dashboard'' ''#session_id=tok1'')) = Inr ''tok1''
   \<and> exchange_fails (net_down (length (requests (page ''/dashboard'' ''#session_id=tok1'')))
        (session_request ''B'' ''tok1''))
   \<and> location_hash (world_after (processAuth net_down ''B''
          (auth_initial, page ''/dashboard'' ''#session_id=tok1''))) = ''#session_id=tok1''
   \<and> history (world_after (processAuth net_down ''B''
          (auth_initial, page ''/dashboard'' ''#session_id=tok1''))) = []
   \<and> location_pathname (world_after (processAuth net_down ''B''
          (auth_initial, page ''/dashboard'' ''#session_id=tok1''))) = ''/dashboard''
   \<and> user (auth_after (processAuth net_down ''B''
          (auth_initial, page ''/dashboard'' ''#session_id=tok1''))) = JNull
   \<and> exchange_fails (net_refusing (length (requests (page ''/dashboard'' ''#session_id=tok1'')))
        (session_request ''B'' ''tok1''))
   \<and> location_hash (world_after (processAuth net_refusing ''B''
          (auth_initial, page ''/dashboard'' ''#session_id=tok1''))) = ''#session_id=tok1''
   \<and> history (world_after (processAuth net_refusing ''B''
          (auth_initial, page ''/dashboard'' ''#session_id=tok1''))) = []
   \<and> location_pathname (world_after (processAuth net_refusing ''B''
          (auth_initial, page ''/dashboard'' ''#session_id=tok1''))) = ''/dashboard''
   \<and> user (auth_after (processAuth net_refusing ''B''
          (auth_initial, page ''/dashboard'' ''#session_id=tok1''))) = JNull
   \<and> exchange_fails (net_garbled (length (requests (page ''/dashboard'' ''#session_id=tok1'')))
        (session_request ''B'' ''tok1''))
   \<and> location_hash (world_after (processAuth net_garbled ''B''
          (auth_initial, page ''/dashboard'' ''#session_id=tok1''))) = ''#session_id=tok1''
   \<and> history (world_after (processAuth net_garbled ''B''
          (auth_initial, page ''/dashboard'' ''#session_id=tok1''))) = []
   \<and> location_pathname (world_after (processAuth net_garbled ''B''
          (auth_initial, page ''/dashboard'' ''#session_id=tok1''))) = ''/dashboard''
   \<and> user (auth_after (processAuth net_garbled ''B''
          (auth_initial, page ''/dashboard'' ''#session_id=tok1''))) = JNull
   \<and> exchange_fails (net_null (length (requests (page ''/dashboard'' ''#session_id=tok1'')))
        (session_request ''B'' ''tok1''))
   \<and> location_hash (world_after (processAuth net_null ''B''
          (auth_initial, page ''/dashboard'' ''#session_id=tok1''))) = ''#session_id=tok1''
   \<and> history (world_after (processAuth net_null ''B''
          (auth_initial, page ''/dashboard'' ''#session_id=tok1''))) = []
   \<and> location_pathname (world_after (processAuth net_null ''B''
          (auth_initial, page ''/dashboard'' ''#session_id=tok1''))) = ''/dashboard''
   \<and> user (auth_after (processAuth net_null ''B''
          (auth_initial, page ''/dashboard'' ''#session_id=tok1''))) = JNull"
proof -
  let ?p = "page ''/dashboard'' ''#session_id=tok1''"
  have inc: "includes_js (location_hash ?p) ''session_id=''"
    by (simp add: page_def)
  have tok: "sessionId_of (location_hash ?p) = Inr ''tok1''"
    using sessionId_of_includes[OF inc] by (simp add: spec_token_bounded_def page_def)
  have down: "exchange_fails (net_down (length (requests ?p)) (session_request ''B'' ''tok1''))"
    by (simp add: net_down_def)
  have refusing:
    "exchange_fails (net_refusing (length (requests ?p)) (session_request ''B'' ''tok1''))"
    by (simp add: net_refusing_def)
  have garbled:
    "exchange_fails (net_garbled (length (requests ?p)) (session_request ''B'' ''tok1''))"
    by (simp add: net_garbled_def)
  have null: "exchange_fails (net_null (length (requests ?p)) (session_request ''B'' ''tok1''))"
    by (simp add: net_null_def)
  have fields: "location_hash ?p = ''#session_id=tok1''" "history ?p = []"
    "location_pathname ?p = ''/dashboard''" "user auth_initial = JNull"
    by (simp_all add: page_def auth_initial_def)
  from failed_exchange_keeps_fragment[of ?p "''tok1''" net_down "''B''" auth_initial,
      OF inc tok down]
    failed_exchange_keeps_fragment[of ?p "''tok1''" net_refusing "''B''" auth_initial,
      OF inc tok refusing]
    failed_exchange_keeps_fragment[of ?p "''tok1''" net_garbled "''B''" auth_initial,
      OF inc tok garbled]
    failed_exchange_keeps_fragment[of ?p "''tok1''" net_null "''B''" auth_initial,
      OF inc tok null]
    inc tok down refusing garbled null
  show ?thesis unfolding fields by simp
qed

section \<open>The view selector\<close>

text \<open>
  In \<open>App\<close> of \<open>frontend/src/App.js\<close> the branch that assigns \<open>window.location.href\<close> is
  unreachable, since \<open>isOnDashboard\<close> is truthy whenever \<open>user\<close> is: a render never
  navigates.
\<close>

lemma App_never_navigates: "snd (App a w) = w"
  by (auto simp: App_def)

lemma App_renders_Dashboard:
  "\<not> loading a \<Longrightarrow> \<not> processingAuth a \<Longrightarrow> truthy (user a) \<Longrightarrow> fst (App a w) = Dashboard"
  by (simp add: App_def)

text \<open>
  \<open>App\<close> of the second source file renders the dashboard for a resolved user as well, and
  its effects bring the path to \<open>/dashboard\<close>: by \<open>pushState\<close> unless the current page is
  already the dashboard, which it becomes for a signed-out visitor only at that path.
\<close>

lemma App_part_000_renders_Dashboard:
  "\<not> loading a \<Longrightarrow> \<not> processingAuth a \<Longrightarrow> truthy (user a) \<Longrightarrow>
   App_part_000 a currentPage = Dashboard"
  by (simp add: App_part_000_def renderPage_def)

lemma effects_on_user_navigate:
  assumes "truthy (user a)"
    and "currentPage = ''dashboard'' \<longrightarrow> location_pathname w = ''/dashboard''"
  shows "fst (effects_on_user a (currentPage, w)) = ''dashboard''
         \<and> location_pathname (snd (effects_on_user a (currentPage, w))) = ''/dashboard''"
  using assms
  by (simp add: effects_on_user_def redirect_effect_def route_effect_def pushState_def)

text \<open>
  C2 at a user who resolves while the page is at \<open>/\<close>: \<open>App\<close> of \<open>frontend/src/App.js\<close>
  renders the dashboard and leaves the browser where it is, with the path \<open>/\<close>, no
  assignment to \<open>window.location.href\<close> and no history entry.
\<close>

theorem App_resolved_user_stays_at_root:
  "App \<lparr>user = plain_user, loading = False, processingAuth = False\<rparr> (page ''/'' [])
     = (Dashboard, page ''/'' [])
   \<and> location_pathname (page ''/'' []) = ''/''
   \<and> location_href_assigned (page ''/'' []) = []
   \<and> history (page ''/'' []) = []"
  by (simp add: App_def plain_user_def page_def)

section \<open>The dashboard tabs\<close>

text \<open>
  C6. The tab set is \<open>overview, users, bots, analytics\<close> when the role of the user is
  \<open>admin\<close> and \<open>overview, bots, trades, portfolio\<close> otherwise, and the tab sets of an
  admin and of a non-admin differ.
\<close>

theorem tabs_by_role:
  "(opt_member u ''role'' = JStr ''admin'' \<longrightarrow>
      tabs u = [''overview'', ''users'', ''bots'', ''analytics''])
   \<and> (opt_member u ''role'' \<noteq> JStr ''admin'' \<longrightarrow>
      tabs u = [''overview'', ''bots'', ''trades'', ''portfolio''])
   \<and> (\<forall>v. (opt_member u ''role'' = JStr ''admin'') \<noteq> (opt_member v ''role'' = JStr ''admin'')
        \<longrightarrow> tabs u \<noteq> tabs v)"
  by (simp add: tabs_def isAdmin_def)

theorem tabs_by_role_witness:
  "opt_member admin_user ''role'' = JStr ''admin''
   \<and> tabs admin_user = [''overview'', ''users'', ''bots'', ''analytics'']
   \<and> opt_member plain_user ''role'' \<noteq> JStr ''admin''
   \<and> tabs plain_user = [''overview'', ''bots'', ''trades'', ''portfolio'']
   \<and> tabs admin_user \<noteq> tabs plain_user"
proof -
  have a: "opt_member admin_user ''role'' = JStr ''admin''"
    by (simp add: opt_member_def admin_user_def)
  have p: "opt_member plain_user ''role'' \<noteq> JStr ''admin''"
    by (simp add: opt_member_def plain_user_def)
  from a p tabs_by_role[of admin_user] tabs_by_role[of plain_user]
  show ?thesis by simp
qed

section \<open>Login and logout\<close>

text \<open>
  The encoded text consists of unreserved characters and percent signs, and encoding
  distributes over concatenation.
\<close>

lemma hex_digit_unreserved: "uri_unreserved (hex_digit n)"
proof -
  have "n mod 16 \<in> {0,1,2,3,4,5,6,7,8,9,10,11,12,13,14,15}"
    unfolding insert_iff empty_iff by presburger
  then show ?thesis
    unfolding hex_digit_def uri_unreserved_def by (elim insertE emptyE) simp_all
qed

lemma encode_unit_chars:
  "c' \<in> set (encode_unit c) \<Longrightarrow> uri_unreserved c' \<or> c' = CHR ''%''"
  by (auto simp: encode_unit_def utf8_bytes_def percent_byte_def hex_digit_unreserved
      split: if_splits)

lemma encodeURIComponent_chars:
  "c \<in> set (encodeURIComponent s) \<Longrightarrow> uri_unreserved c \<or> c = CHR ''%''"
  by (auto simp: encodeURIComponent_def dest: encode_unit_chars)

lemma encodeURIComponent_append:
  "encodeURIComponent (s @ t) = encodeURIComponent s @ encodeURIComponent t"
  by (simp add: encodeURIComponent_def)

lemma encodeURIComponent_dashboard: "encodeURIComponent ''/dashboard'' = ''%2Fdashboard''"
  by (simp add: encodeURIComponent_def encode_unit_def uri_unreserved_def utf8_bytes_def
      percent_byte_def hex_digit_def)

text \<open>
  C8. \<open>login\<close> assigns to \<open>window.location.href\<close> the address of the identity provider
  followed by the encoded return address, which is the origin followed by \<open>/dashboard\<close>;
  the encoding turns the slash of \<open>/dashboard\<close> into \<open>%2F\<close>.
\<close>

theorem login_navigates:
  "login w =
     w\<lparr>location_href_assigned := location_href_assigned w @
         [''https://auth.emergentagent.com/?redirect=''
          @ encodeURIComponent (location_origin w @ ''/dashboard'')]\<rparr>
   \<and> encodeURIComponent (location_origin w @ ''/dashboard'')
       = encodeURIComponent (location_origin w) @ ''%2Fdashboard''"
  by (simp add: login_def assign_href_def encodeURIComponent_append encodeURIComponent_dashboard)

lemma login_example:
  "location_href_assigned (login (page ''/'' [])) =
     [''https://auth.emergentagent.com/?redirect=https%3A%2F%2Fzodic.example%2Fdashboard'']"
  by (simp add: login_def assign_href_def page_def encodeURIComponent_def encode_unit_def
      uri_unreserved_def utf8_bytes_def percent_byte_def hex_digit_def)

text \<open>
  C9. \<open>logout\<close> issues one POST to \<open>/api/auth/logout\<close>. When the request does not throw,
  whatever its status, the user becomes \<open>null\<close> and \<open>isAuthenticated\<close> false; when it
  throws, the auth state is unchanged, so a signed-in caller still appears signed in.
\<close>

theorem logout_clears_user_unless_thrown:
  "(net (length (requests w)) (logout_request B) \<noteq> Rejected \<longrightarrow>
      user (fst (logout net B (a, w))) = JNull \<and> \<not> isAuthenticated (fst (logout net B (a, w))))
   \<and> (net (length (requests w)) (logout_request B) = Rejected \<longrightarrow>
      fst (logout net B (a, w)) = a
      \<and> isAuthenticated (fst (logout net B (a, w))) = isAuthenticated a)
   \<and> issued w (snd (logout net B (a, w))) = [logout_request B]
   \<and> req_method (logout_request B) = POST
   \<and> req_url (logout_request B) = B @ ''/api/auth/logout''"
  by (cases "net (length (requests w)) (logout_request B)")
     (simp_all add: logout_def fetch_def catch_log_def console_error_def isAuthenticated_def
        issued_def logout_request_def)

theorem logout_clears_user_unless_thrown_witness:
  "net_refusing (length (requests (page ''/dashboard'' []))) (logout_request ''B'') \<noteq> Rejected
   \<and> user (fst (logout net_refusing ''B''
        (\<lparr>user = plain_user, loading = False, processingAuth = False\<rparr>, page ''/dashboard'' [])))
      = JNull
   \<and> net_down (length (requests (page ''/dashboard'' []))) (logout_request ''B'') = Rejected
   \<and> isAuthenticated (fst (logout net_down ''B''
        (\<lparr>user = plain_user, loading = False, processingAuth = False\<rparr>, page ''/dashboard'' [])))"
proof -
  let ?a = "\<lparr>user = plain_user, loading = False, processingAuth = False\<rparr>"
  let ?p = "page ''/dashboard'' []"
  have up: "net_refusing (length (requests ?p)) (logout_request ''B'') \<noteq> Rejected"
    by (simp add: net_refusing_def)
  have down: "net_down (length (requests ?p)) (logout_request ''B'') = Rejected"
    by (simp add: net_down_def)
  have auth: "isAuthenticated ?a"
    by (simp add: isAuthenticated_def plain_user_def)
  from up down auth
    logout_clears_user_unless_thrown[of net_refusing ?p "''B''" ?a]
    logout_clears_user_unless_thrown[of net_down ?p "''B''" ?a]
  show ?thesis by simp
qed

section \<open>The data fetcher\<close>

text \<open>The \<open>try\<close> block of \<open>fetchData\<close> is the run of its six blocks in order.\<close>

lemma then_do_assoc: "then_do (then_do r f) g = then_do r (\<lambda>s. then_do (f s) g)"
  by (cases r) (simp_all add: then_do_def)

lemma then_do_Inr: "then_do r Inr = r"
  by (cases r) (simp_all add: then_do_def)

lemma run_blocks_Nil: "run_blocks net [] = Inr"
  by (rule ext) simp

lemma run_blocks_Cons:
  "run_blocks net ((req, setX) # bs) =
     (\<lambda>s. then_do (fetch_into net req setX s) (run_blocks net bs))"
  by (rule ext) simp

lemma fetchData_try_blocks:
  "fetchData_try net B u (d, w) = run_blocks net (blocks B u) (d\<lparr>dash_loading := True\<rparr>, w)"
  by (simp add: fetchData_try_def blocks_def isAdmin_def then_do_assoc then_do_Inr
      run_blocks_Nil run_blocks_Cons)

lemma map_fst_blocks: "map fst (blocks B u) = batch B u"
  by (simp add: blocks_def batch_def)

text \<open>
  What a run of blocks appends to the request log: the requests in order, up to and
  including the first that throws.
\<close>

lemma run_blocks_requests:
  "requests (snd (catch_log msg (run_blocks net bs (d, w)))) =
     requests w @ issued_until_throw net (length (requests w)) (map fst bs)"
proof (induction bs arbitrary: d w)
  case Nil
  show ?case by (simp add: catch_log_def)
next
  case (Cons b bs)
  obtain req setX where b: "b = (req, setX)" by (cases b)
  show ?case
  proof (cases "net (length (requests w)) req")
    case Rejected
    then show ?thesis
      by (simp add: b fetch_into_def fetch_def then_do_def catch_log_def console_error_def)
  next
    case (Response ok body)
    show ?thesis
    proof (cases "ok \<and> body = None")
      case True
      with Response show ?thesis
        by (simp add: b fetch_into_def fetch_def then_do_def catch_log_def console_error_def)
    next
      case False
      with Response obtain d1 where
        "fetch_into net req setX (d, w) = Inr (d1, w\<lparr>requests := requests w @ [req]\<rparr>)"
        by (cases ok; cases body) (auto simp: fetch_into_def fetch_def)
      with Response False Cons.IH[of d1 "w\<lparr>requests := requests w @ [req]\<rparr>"]
      show ?thesis by (auto simp: b then_do_def)
    qed
  qed
qed

lemma fetchData_issued:
  "issued w (snd (fetchData net B u (d, w))) =
     issued_until_throw net (length (requests w)) (batch B u)"
proof -
  have "requests (snd (fetchData net B u (d, w))) =
      requests (snd (catch_log ''Error fetching data:''
        (run_blocks net (blocks B u) (d\<lparr>dash_loading := True\<rparr>, w))))"
    by (simp add: fetchData_def fetchData_try_blocks split: prod.splits)
  then show ?thesis
    by (simp add: issued_def run_blocks_requests map_fst_blocks)
qed

lemma issued_until_throw_prefix: "prefix (issued_until_throw net n rs) rs"
  by (induction rs arbitrary: n) auto

lemma issued_until_throw_length:
  "i < length rs \<Longrightarrow>
   i < length (issued_until_throw net n rs) \<longleftrightarrow> (\<forall>j<i. \<not> throws (net (n + j) (rs ! j)))"
proof (induction rs arbitrary: n i)
  case Nil
  then show ?case by simp
next
  case (Cons r rs)
  show ?case
  proof (cases i)
    case 0
    then show ?thesis by simp
  next
    case (Suc k)
    with Cons.prems have k: "k < length rs" by simp
    have "(\<forall>j<Suc k. \<not> throws (net (n + j) ((r # rs) ! j))) \<longleftrightarrow>
          \<not> throws (net n r) \<and> (\<forall>j<k. \<not> throws (net (Suc n + j) (rs ! j)))"
      by (auto simp: less_Suc_eq_0_disj)
    with Cons.IH[OF k, of "Suc n"] Suc show ?thesis by simp
  qed
qed





text \<open>
  C3, as stated, fails: when the analytics request throws, \<open>fetchData\<close> issues no other
  request of the batch; the request for the bots is never sent.
\<close>

theorem fetchData_one_throw_stops_batch:
  "net_first_down 0 (analytics_request ''B'') = Rejected
   \<and> issued (page ''/dashboard'' [])
        (snd (fetchData net_first_down ''B'' plain_user (dashboard_initial, page ''/dashboard'' [])))
      = [analytics_request ''B'']
   \<and> bots_request ''B'' \<notin> set (issued (page ''/dashboard'' [])
        (snd (fetchData net_first_down ''B'' plain_user (dashboard_initial, page ''/dashboard'' []))))"
  by (simp add: fetchData_issued batch_def isAdmin_def opt_member_def plain_user_def page_def
      net_first_down_def analytics_request_def bots_request_def get_request_def)

text \<open>
  C3, amended. \<open>fetchData\<close> issues the requests of the batch one after the other, in the
  order analytics, bots, trades, portfolio, market snapshot, admin user list: a request
  of the batch is issued exactly when no request before it in the batch throws. So a
  thrown request prevents every later one and none of the earlier ones, and a non-OK
  response prevents none.
\<close>

theorem fetchData_sequential:
  "prefix (issued w (snd (fetchData net B u (d, w)))) (batch B u)
   \<and> (\<forall>i<length (batch B u).
        i < length (issued w (snd (fetchData net B u (d, w)))) \<longleftrightarrow>
        (\<forall>j<i. \<not> throws (net (length (requests w) + j) (batch B u ! j))))"
  by (simp add: fetchData_issued issued_until_throw_prefix issued_until_throw_length)

theorem fetchData_sequential_witness:
  "(1::nat) < length (batch ''B'' plain_user)
   \<and> throws (net_first_down (length (requests (page ''/dashboard'' [])) + 0)
        (batch ''B'' plain_user ! 0))
   \<and> \<not> 1 < length (issued (page ''/dashboard'' [])
        (snd (fetchData net_first_down ''B'' plain_user (dashboard_initial, page ''/dashboard'' []))))
   \<and> (4::nat) < length (batch ''B'' plain_user)
   \<and> 4 < length (issued (page ''/dashboard'' [])
        (snd (fetchData net_refusing ''B'' plain_user (dashboard_initial, page ''/dashboard'' []))))"
proof -
  let ?p = "page ''/dashboard'' []"
  let ?down = "issued ?p (snd (fetchData net_first_down ''B'' plain_user (dashboard_initial, ?p)))"
  let ?refused = "issued ?p (snd (fetchData net_refusing ''B'' plain_user (dashboard_initial, ?p)))"
  have len: "length (batch ''B'' plain_user) = 5"
    by (simp add: batch_def isAdmin_def opt_member_def plain_user_def)
  have thr: "throws (net_first_down (length (requests ?p) + 0) (batch ''B'' plain_user ! 0))"
    by (simp add: net_first_down_def page_def)
  have ok: "\<forall>j<4. \<not> throws (net_refusing (length (requests ?p) + j) (batch ''B'' plain_user ! j))"
    by (simp add: net_refusing_def)
  have "\<forall>i<length (batch ''B'' plain_user). i < length ?down \<longleftrightarrow>
      (\<forall>j<i. \<not> throws (net_first_down (length (requests ?p) + j) (batch ''B'' plain_user ! j)))"
    using fetchData_sequential[of ?p net_first_down "''B''" plain_user dashboard_initial] ..
  then have "1 < length ?down \<longleftrightarrow>
      (\<forall>j<1. \<not> throws (net_first_down (length (requests ?p) + j) (batch ''B'' plain_user ! j)))"
    unfolding len by (rule allE[where x = 1]) simp
  with thr have a: "\<not> 1 < length ?down" by blast
  have "\<forall>i<length (batch ''B'' plain_user). i < length ?refused \<longleftrightarrow>
      (\<forall>j<i. \<not> throws (net_refusing (length (requests ?p) + j) (batch ''B'' plain_user ! j)))"
    using fetchData_sequential[of ?p net_refusing "''B''" plain_user dashboard_initial] ..
  then have "4 < length ?refused \<longleftrightarrow>
      (\<forall>j<4. \<not> throws (net_refusing (length (requests ?p) + j) (batch ''B'' plain_user ! j)))"
    unfolding len by (rule allE[where x = 4]) simp
  with ok have b: "4 < length ?refused" by blast
  show ?thesis
    unfolding len using thr a b by simp
qed


text \<open>
  C7, as stated, fails: for an admin, when the requests throw, the run stops at the
  first one and \<open>/api/admin/users\<close> is not requested.
\<close>

theorem fetchData_admin_request_skipped:
  "opt_member admin_user ''role'' = JStr ''admin''
   \<and> users_request ''B'' \<notin> set (issued (page ''/dashboard'' [])
        (snd (fetchData net_down ''B'' admin_user (dashboard_initial, page ''/dashboard'' []))))"
  by (simp add: fetchData_issued batch_def isAdmin_def opt_member_def admin_user_def page_def
      net_down_def analytics_request_def users_request_def get_request_def)

lemma users_request_in_batch:
  "users_request B \<in> set (issued_until_throw net n (batch B u)) \<longleftrightarrow>
     isAdmin u
     \<and> \<not> throws (net n (analytics_request B))
     \<and> \<not> throws (net (n + 1) (bots_request B))
     \<and> \<not> throws (net (n + 2) (trades_request B))
     \<and> \<not> throws (net (n + 3) (portfolio_request B))
     \<and> \<not> throws (net (n + 4) (market_request B))"
proof -
  have ne: "users_request B \<noteq> analytics_request B" "users_request B \<noteq> bots_request B"
    "users_request B \<noteq> trades_request B" "users_request B \<noteq> portfolio_request B"
    "users_request B \<noteq> market_request B"
    by (simp_all add: analytics_request_def bots_request_def trades_request_def
        portfolio_request_def market_request_def users_request_def get_request_def)
  have n: "n + 2 = Suc (Suc n)" "n + 3 = Suc (Suc (Suc n))" "n + 4 = Suc (Suc (Suc (Suc n)))"
    by simp_all
  show ?thesis
    by (cases "isAdmin u") (simp_all add: batch_def ne n)
qed

lemma non_admin_batch_urls:
  "\<not> isAdmin u \<Longrightarrow> r \<in> set (batch B u) \<Longrightarrow> req_url r \<noteq> B @ ''/api/admin/users''"
  by (auto simp: batch_def analytics_request_def bots_request_def trades_request_def
      portfolio_request_def market_request_def get_request_def)

text \<open>
  C7, amended. A dashboard data load issues the GET to \<open>/api/admin/users\<close> if and only if
  the role of the user is \<open>admin\<close> and none of the five requests before it throws; for a
  non-admin no request goes to that endpoint.
\<close>

theorem fetchData_admin_request:
  "(users_request B \<in> set (issued w (snd (fetchData net B u (d, w)))) \<longleftrightarrow>
      opt_member u ''role'' = JStr ''admin''
      \<and> \<not> throws (net (length (requests w)) (analytics_request B))
      \<and> \<not> throws (net (length (requests w) + 1) (bots_request B))
      \<and> \<not> throws (net (length (requests w) + 2) (trades_request B))
      \<and> \<not> throws (net (length (requests w) + 3) (portfolio_request B))
      \<and> \<not> throws (net (length (requests w) + 4) (market_request B)))
   \<and> (opt_member u ''role'' \<noteq> JStr ''admin'' \<longrightarrow>
        (\<forall>r \<in> set (issued w (snd (fetchData net B u (d, w)))).
           req_url r \<noteq> B @ ''/api/admin/users''))
   \<and> req_method (users_request B) = GET
   \<and> req_url (users_request B) = B @ ''/api/admin/users''"
proof -
  have "set (issued w (snd (fetchData net B u (d, w)))) \<subseteq> set (batch B u)"
    unfolding fetchData_issued by (rule set_mono_prefix) (rule issued_until_throw_prefix)
  then have "\<not> isAdmin u \<longrightarrow>
      (\<forall>r \<in> set (issued w (snd (fetchData net B u (d, w)))). req_url r \<noteq> B @ ''/api/admin/users'')"
    using non_admin_batch_urls by blast
  then show ?thesis
    unfolding fetchData_issued users_request_in_batch
    by (simp add: isAdmin_def users_request_def get_request_def)
qed

theorem fetchData_admin_request_witness:
  "opt_member admin_user ''role'' = JStr ''admin''
   \<and> users_request ''B'' \<in> set (issued (page ''/dashboard'' [])
        (snd (fetchData net_refusing ''B'' admin_user (dashboard_initial, page ''/dashboard'' []))))
   \<and> opt_member plain_user ''role'' \<noteq> JStr ''admin''
   \<and> users_request ''B'' \<notin> set (issued (page ''/dashboard'' [])
        (snd (fetchData net_refusing ''B'' plain_user (dashboard_initial, page ''/dashboard'' []))))"
proof -
  let ?p = "page ''/dashboard'' []"
  have a: "opt_member admin_user ''role'' = JStr ''admin''"
    by (simp add: opt_member_def admin_user_def)
  have p: "opt_member plain_user ''role'' \<noteq> JStr ''admin''"
    by (simp add: opt_member_def plain_user_def)
  have r: "\<not> throws (net_refusing n q)" for n q
    by (simp add: net_refusing_def)
  from a p r
    fetchData_admin_request[of "''B''" ?p net_refusing admin_user dashboard_initial]
    fetchData_admin_request[of "''B''" ?p net_refusing plain_user dashboard_initial]
  show ?thesis by simp
qed



end
